theory Spec2Isabelle
  imports Main "HOL-Library.Sublist" "HOL-Library.AList"
begin

section \<open>Python values used by the NudgeAI backend\<close>

text \<open>
  A Python \<open>str\<close> is modelled as a \<open>string\<close>: one \<open>char\<close> per code point, for the code
  points U+0000 .. U+00FF.  \<open>str.lower()\<close> on that range maps \<open>A..Z\<close> and the Latin-1
  capitals U+00C0 .. U+00DE (other than the multiplication sign U+00D7) to the letter
  32 positions later and leaves every other code point alone.
\<close>

datatype py_error = TypeError | AttributeError | IndexError | ValueError | OSError

definition lower_char :: "char \<Rightarrow> char" where
  "lower_char c =
     (let n = (of_char c :: nat)
      in if (65 \<le> n \<and> n \<le> 90) \<or> (192 \<le> n \<and> n \<le> 222 \<and> n \<noteq> 215)
         then char_of (n + 32) else c)"

definition lower :: "string \<Rightarrow> string" where
  "lower s = map lower_char s"

text \<open>\<open>p in t\<close> on strings: \<open>p\<close> occurs in \<open>t\<close> as a contiguous run.\<close>

fun starts_with :: "string \<Rightarrow> string \<Rightarrow> bool" where
  "starts_with t [] = True"
| "starts_with [] (p # ps) = False"
| "starts_with (c # cs) (p # ps) = (c = p \<and> starts_with cs ps)"

fun py_in :: "string \<Rightarrow> string \<Rightarrow> bool" where
  "py_in p [] = (p = [])"
| "py_in p (c # cs) = (starts_with (c # cs) p \<or> py_in p cs)"

text \<open>\<open>x or ""\<close> for an argument that is \<open>None\<close> or a string.\<close>

definition or_empty :: "string option \<Rightarrow> string" where
  "or_empty x = (case x of None \<Rightarrow> [] | Some s \<Rightarrow> s)"

text \<open>\<open>x[:50]\<close>: a slice of a string, a \<open>TypeError\<close> on \<open>None\<close>.\<close>

definition slice50 :: "string option \<Rightarrow> py_error + string" where
  "slice50 x = (case x of None \<Rightarrow> Inl TypeError | Some s \<Rightarrow> Inr (take 50 s))"

text \<open>\<open>any(w in text for w in ws)\<close>.\<close>

definition any_in :: "string list \<Rightarrow> string \<Rightarrow> bool" where
  "any_in ws t = list_ex (\<lambda>w. py_in w t) ws"

section \<open>task\_extractor.py\<close>

text \<open>
  The clock.  \<open>datetime.now()\<close> is a parameter of the model: the day (as a proleptic
  ordinal) and the microsecond within it.  \<open>(now + timedelta(days=n)).strftime("%Y-%m-%d")\<close>
  depends on the day alone; the deadline keeps that day instead of its ten-character
  rendering.  A deadline is therefore a literal label or the ISO date of a day.
\<close>

record datetime =
  dt_day :: int
  dt_usec :: nat

datatype deadline = Label string | IsoDate int

definition in_days :: "datetime \<Rightarrow> int \<Rightarrow> deadline" where
  "in_days now n = IsoDate (dt_day now + n)"

text \<open>The dictionary that \<open>extract_task\<close> returns.\<close>

record candidate =
  task :: "string option"
  assignee :: string
  deadline :: "deadline option"
  confidence :: string
  source :: string
  subject_or_channel :: "string option"

text \<open>An element of the module-level list \<open>confirmed_tasks\<close>: the same keys and \<open>added_on\<close>.\<close>

record log_entry = candidate +
  added_on :: datetime

text \<open>
  What a branch of the \<open>if\<close>/\<open>elif\<close> chain leaves in the four local variables
  \<open>task\<close>, \<open>assignee\<close>, \<open>deadline\<close>, \<open>confidence\<close>, or the exception its body raises.
\<close>

type_synonym outcome = "py_error + (string option \<times> string \<times> deadline option \<times> string)"

definition found :: "string \<Rightarrow> string \<Rightarrow> deadline \<Rightarrow> string \<Rightarrow> outcome" where
  "found t a d c = Inr (Some t, a, Some d, c)"

definition found_with_subject :: "string \<Rightarrow> string option \<Rightarrow> string \<Rightarrow> deadline \<Rightarrow> string \<Rightarrow> outcome" where
  "found_with_subject pre subj a d c =
     (case slice50 subj of Inl e \<Rightarrow> Inl e | Inr s \<Rightarrow> Inr (Some (pre @ s), a, Some d, c))"

text \<open>The values of the four locals before the chain, which a chain with no branch taken keeps.\<close>

definition initial_locals :: outcome where
  "initial_locals = Inr (None, ''You'', None, ''low'')"

text \<open>
  An \<open>if\<close>/\<open>elif\<close> chain is the list of its branches in source order, each a condition
  and the outcome of its body; the first branch whose condition holds is taken.
\<close>

fun first_match :: "(bool \<times> outcome) list \<Rightarrow> outcome \<Rightarrow> outcome" where
  "first_match [] d = d"
| "first_match ((c, r) # rs) d = (if c then r else first_match rs d)"

text \<open>The 23 task-assigning branches of the email chain (source lines 28 to 143).\<close>

definition email_task_rules ::
  "datetime \<Rightarrow> string \<Rightarrow> string \<Rightarrow> string option \<Rightarrow> (bool \<times> outcome) list" where
  "email_task_rules now combined_text subject_text subj =
   [ (py_in ''revised document'' combined_text \<or> py_in ''send the revised document'' combined_text,
        found ''Send the revised document'' ''Ravindu'' (Label ''Friday'') ''high''),
     (py_in ''follow up with the client'' combined_text
        \<or> (py_in ''follow up'' combined_text \<and> py_in ''client'' combined_text),
        found ''Follow up with the client'' ''Ravindu'' (in_days now 1) ''high''),
     (py_in ''urgent'' subject_text \<or> py_in ''asap'' combined_text \<or> py_in ''immediately'' combined_text,
        found_with_subject ''Complete urgent task: '' subj ''You'' (Label ''Today'') ''high''),
     (py_in ''password reset'' combined_text
        \<or> (py_in ''password'' combined_text \<and> py_in ''reset'' combined_text),
        found ''Update security credentials'' ''You'' (in_days now 2) ''high''),
     (py_in ''phishing'' combined_text \<or> py_in ''security'' combined_text,
        found ''Update security and change credentials'' ''You'' (Label ''Today'') ''high''),
     (py_in ''revisions'' combined_text
        \<or> (py_in ''update'' combined_text \<and> py_in ''version'' combined_text),
        found ''Revise and update document/proposal'' ''You'' (in_days now 3) ''medium''),
     (py_in ''please review'' combined_text
        \<or> (py_in ''review'' combined_text \<and> \<not> py_in ''resolved'' combined_text),
        found_with_subject ''Review: '' subj ''You'' (in_days now 2) ''medium''),
     (py_in ''please check'' combined_text
        \<or> (py_in ''check'' combined_text \<and> \<not> py_in ''deployment'' combined_text),
        found_with_subject ''Check and verify: '' subj ''You'' (in_days now 2) ''medium''),
     (py_in ''quote'' combined_text \<or> py_in ''proposal'' combined_text,
        found ''Prepare quote/proposal'' ''You'' (in_days now 3) ''medium''),
     (py_in ''confirm'' combined_text
        \<or> (py_in ''approval'' combined_text \<and> py_in ''go-live'' combined_text),
        found ''Confirm approval/signature'' ''You'' (in_days now 1) ''high''),
     (py_in ''schedule'' combined_text
        \<or> (py_in ''meeting'' combined_text
             \<and> (py_in ''schedule'' combined_text \<or> py_in ''propose'' combined_text)),
        found ''Schedule meeting/call'' ''You'' (in_days now 1) ''medium''),
     (py_in ''invoice'' combined_text \<or> py_in ''payment'' combined_text \<or> py_in ''billing'' combined_text,
        found ''Process invoice/payment/billing'' ''You'' (in_days now 5) ''medium''),
     (py_in ''feedback'' combined_text
        \<or> (py_in ''report'' combined_text \<and> \<not> py_in ''outage'' combined_text)
        \<or> py_in ''summary'' combined_text \<or> py_in ''submit'' combined_text,
        found ''Submit feedback/report/summary'' ''You'' (in_days now 2) ''medium''),
     (py_in ''training'' combined_text \<or> py_in ''compliance'' combined_text
        \<or> py_in ''acknowledge'' combined_text
        \<or> (py_in ''policy'' combined_text \<and> py_in ''read'' combined_text),
        found ''Complete training/acknowledge policy'' ''You'' (in_days now 7) ''medium''),
     (py_in ''contract'' combined_text
        \<or> (py_in ''review'' combined_text \<and> py_in ''contract'' combined_text),
        found ''Review and finalize contract'' ''You'' (in_days now 3) ''medium''),
     (py_in ''data'' combined_text
        \<or> (py_in ''export'' combined_text \<and> py_in ''data'' combined_text),
        found ''Prepare and send data export'' ''You'' (in_days now 1) ''medium''),
     (py_in ''approve'' combined_text
        \<and> (py_in ''post'' combined_text \<or> py_in ''copy'' combined_text \<or> py_in ''campaign'' combined_text),
        found ''Approve marketing content'' ''You'' (in_days now 1) ''medium''),
     (py_in ''incident'' combined_text \<or> py_in ''outage'' combined_text,
        found ''Create incident/outage report'' ''You'' (in_days now 2) ''medium''),
     (py_in ''change request'' combined_text \<or> py_in ''scope change'' combined_text,
        found ''Estimate impact and respond to change request'' ''You'' (in_days now 2) ''medium''),
     (py_in ''recruit'' combined_text \<or> py_in ''research'' combined_text \<or> py_in ''study'' combined_text,
        found ''Recruit users/prepare research'' ''You'' (in_days now 4) ''medium''),
     (py_in ''press'' combined_text,
        found ''Review and edit press release'' ''You'' (in_days now 2) ''medium''),
     (py_in ''finalize'' combined_text \<or> py_in ''sow'' combined_text,
        found ''Finalize statement of work'' ''You'' (in_days now 3) ''medium''),
     (py_in ''renewal'' combined_text,
        found ''Review and approve contract renewal'' ''You'' (in_days now 10) ''medium'') ]"

text \<open>
  The branch under the comment \<open>Low confidence / No action\<close> (line 145): its body assigns
  \<open>task = None\<close> and \<open>confidence = "low"\<close> and leaves \<open>assignee\<close> and \<open>deadline\<close> as they are.
\<close>

definition no_action_markers :: "string \<Rightarrow> bool" where
  "no_action_markers combined_text \<longleftrightarrow>
     py_in ''no action'' combined_text \<or> py_in ''fyi'' combined_text \<or> py_in ''digest'' combined_text
     \<or> py_in ''resolved'' combined_text \<or> py_in ''deployment'' combined_text"

definition no_action_rule :: "string \<Rightarrow> bool \<times> outcome" where
  "no_action_rule combined_text = (no_action_markers combined_text, Inr (None, ''You'', None, ''low''))"

text \<open>The last branch (line 149), for messages with directive words.\<close>

definition directive_words :: "string list" where
  "directive_words = [''can you'', ''could you'', ''please'', ''would you'']"

definition directive_rule :: "datetime \<Rightarrow> string \<Rightarrow> string option \<Rightarrow> bool \<times> outcome" where
  "directive_rule now combined_text subj =
     (any_in directive_words combined_text,
      found_with_subject ''Review and respond: '' subj ''You'' (in_days now 2) ''low'')"

definition email_rules ::
  "datetime \<Rightarrow> string \<Rightarrow> string \<Rightarrow> string option \<Rightarrow> (bool \<times> outcome) list" where
  "email_rules now combined_text subject_text subj =
     email_task_rules now combined_text subject_text subj
     @ [no_action_rule combined_text, directive_rule now combined_text subj]"

definition calendar_rules :: "datetime \<Rightarrow> string \<Rightarrow> (bool \<times> outcome) list" where
  "calendar_rules now text =
   [ (py_in ''prepare'' text, found ''Prepare meeting summary'' ''You'' (in_days now 1) ''high'') ]"

definition slack_rules :: "datetime \<Rightarrow> string \<Rightarrow> (bool \<times> outcome) list" where
  "slack_rules now text =
   [ (py_in ''check'' text \<and> py_in ''logs'' text,
        found ''Check server logs'' ''You'' (in_days now 1) ''medium''),
     (py_in ''deployment'' text,
        found ''Update deployment checklist'' ''You'' (in_days now 2) ''medium'') ]"

text \<open>The chain that \<open>source\<close> selects; any other source has none.\<close>

definition rules_for ::
  "datetime \<Rightarrow> string \<Rightarrow> string \<Rightarrow> string \<Rightarrow> string \<Rightarrow> string option \<Rightarrow> (bool \<times> outcome) list" where
  "rules_for now src text subject_text combined_text subj =
     (if src = ''email'' then email_rules now combined_text subject_text subj
      else if src = ''calendar'' then calendar_rules now text
      else if src = ''slack'' then slack_rules now text
      else [])"

text \<open>\<open>if task:\<close> holds for a string that is not empty.\<close>

definition truthy :: "string option \<Rightarrow> bool" where
  "truthy t = (case t of None \<Rightarrow> False | Some s \<Rightarrow> s \<noteq> [])"

text \<open>
  \<open>extract_task(content, source, subject_or_channel)\<close>, run at clock reading \<open>now\<close> with the
  module-level list \<open>confirmed_tasks\<close>: the value returned or the exception raised, and the
  list afterwards.  An exception is raised inside the chain, before the list is touched.
  The call reads the clock for the deadline and again for \<open>added_on\<close>; both reads are
  the one reading \<open>now\<close>.
\<close>

definition extract_task ::
  "datetime \<Rightarrow> string option \<Rightarrow> string \<Rightarrow> string option \<Rightarrow> log_entry list
     \<Rightarrow> (py_error + candidate) \<times> log_entry list" where
  "extract_task now content src subj confirmed_tasks =
     (let text = lower (or_empty content);
          subject_text = lower (or_empty subj);
          combined_text = text @ '' '' @ subject_text
      in case first_match (rules_for now src text subject_text combined_text subj) initial_locals of
           Inl e \<Rightarrow> (Inl e, confirmed_tasks)
         | Inr (t, a, d, c) \<Rightarrow>
             (Inr \<lparr>task = t, assignee = a, deadline = d, confidence = c,
                   source = src, subject_or_channel = subj\<rparr>,
              if truthy t
              then confirmed_tasks @
                     [\<lparr>task = t, assignee = a, deadline = d, confidence = c,
                       source = src, subject_or_channel = subj, added_on = now\<rparr>]
              else confirmed_tasks))"

text \<open>The lower-cased matching buffer of a call.\<close>

definition combined :: "string option \<Rightarrow> string option \<Rightarrow> string" where
  "combined content subj = lower (or_empty content) @ '' '' @ lower (or_empty subj)"

text \<open>The returned dictionary, from the locals at the end of the chain.\<close>

definition candidate_of :: "string \<Rightarrow> string option \<Rightarrow> outcome \<Rightarrow> py_error + candidate" where
  "candidate_of src subj r =
     (case r of Inl e \<Rightarrow> Inl e
      | Inr (t, a, d, c) \<Rightarrow>
          Inr \<lparr>task = t, assignee = a, deadline = d, confidence = c,
                source = src, subject_or_channel = subj\<rparr>)"

text \<open>
  A branch body that raises, or that leaves a non-empty task, a deadline and one of the
  three confidence tiers.
\<close>

definition task_outcome :: "outcome \<Rightarrow> bool" where
  "task_outcome r =
     (case r of Inl e \<Rightarrow> True
      | Inr (t, a, d, c) \<Rightarrow>
          truthy t \<and> d \<noteq> None \<and> (c = ''high'' \<or> c = ''medium'' \<or> c = ''low''))"

text \<open>
  The position in the chain, counted from 0, of the branch taken; \<open>None\<close> when no
  condition of the chain holds.
\<close>

fun first_index :: "(bool \<times> outcome) list \<Rightarrow> nat option" where
  "first_index [] = None"
| "first_index ((c, r) # rs) = (if c then Some 0 else map_option Suc (first_index rs))"

text \<open>Some rule matched: some condition of the chain that \<open>source\<close> selects holds on the call.\<close>

definition some_rule_matched :: "datetime \<Rightarrow> string option \<Rightarrow> string \<Rightarrow> string option \<Rightarrow> bool" where
  "some_rule_matched now content src subj =
     (let text = lower (or_empty content);
          subject_text = lower (or_empty subj);
          combined_text = text @ '' '' @ subject_text
      in list_ex fst (rules_for now src text subject_text combined_text subj))"

text \<open>The branch that the call takes in the chain that \<open>source\<close> selects.\<close>

definition branch_taken :: "datetime \<Rightarrow> string option \<Rightarrow> string \<Rightarrow> string option \<Rightarrow> nat option" where
  "branch_taken now content src subj =
     (let text = lower (or_empty content);
          subject_text = lower (or_empty subj);
          combined_text = text @ '' '' @ subject_text
      in first_index (rules_for now src text subject_text combined_text subj))"

text \<open>
  The no-action branch (line 145) is the 24th of the email chain, position 23, after the
  23 task-assigning branches; the calendar and slack chains have none.
\<close>

definition no_action_branch :: "string \<Rightarrow> nat \<Rightarrow> bool" where
  "no_action_branch src i \<longleftrightarrow> src = ''email'' \<and> i = 23"

section \<open>ai\_agent.py: the task store\<close>

text \<open>
  What \<open>json.load\<close> returns: \<open>None\<close>, booleans, integers, strings, lists and dictionaries
  (a dictionary as the list of its items in insertion order).  Numbers with a fraction or
  an exponent are left out.
\<close>

datatype jval =
    JNull
  | JBool bool
  | JInt int
  | JStr string
  | JArr "jval list"
  | JObj "(string \<times> jval) list"

text \<open>
  The file at \<open>DATA_PATH\<close>.  It is absent, or it is present with two facts about it:
  whether \<open>open(DATA_PATH, "r")\<close> succeeds (it fails with an \<open>OSError\<close> on a file without
  read permission or on a directory), and what \<open>json.load\<close> does on the open file: the
  exception it raises (an \<open>OSError\<close> while reading; a \<open>UnicodeDecodeError\<close> or a
  \<open>JSONDecodeError\<close>, both \<open>ValueError\<close>s) or the array it returns.  Section 6 of the
  specification fixes the persisted state as a JSON array, so a file holding any other
  JSON value is outside the model.
\<close>

datatype file_state = Absent | Present bool "py_error + jval list"

record store =
  data_file :: file_state
  writable :: bool

text \<open>\<open>DATA_PATH.exists()\<close>.\<close>

definition path_exists :: "store \<Rightarrow> bool" where
  "path_exists st = (data_file st \<noteq> Absent)"

text \<open>
  \<open>open(DATA_PATH, "r", encoding="utf-8")\<close>: an \<open>OSError\<close>, or the open file, given as
  what \<open>json.load\<close> does on it.
\<close>

definition open_for_reading :: "store \<Rightarrow> py_error + (py_error + jval list)" where
  "open_for_reading st =
     (case data_file st of
        Absent \<Rightarrow> Inl OSError
      | Present can_open loaded \<Rightarrow> if can_open then Inr loaded else Inl OSError)"

text \<open>
  \<open>load_tasks\<close>: the existence test (lines 34 and 35), then \<open>open\<close> (line 36, outside the
  \<open>try\<close>), then \<open>json.load\<close> inside the \<open>try\<close> with \<open>except Exception: return []\<close>
  (lines 37 to 40).
\<close>

definition load_tasks :: "store \<Rightarrow> py_error + jval list" where
  "load_tasks st =
     (if \<not> path_exists st then Inr []
      else
        (case open_for_reading st of
           Inl e \<Rightarrow> Inl e
         | Inr f \<Rightarrow>
             (case f of
                Inl e \<Rightarrow> Inr []
              | Inr tasks \<Rightarrow> Inr tasks)))"

text \<open>
  \<open>save_tasks\<close>: \<open>mkdir\<close> and \<open>open(.., "w")\<close> raise where the path cannot be written;
  otherwise the file holds the array, readable as it was (a new file is readable).
\<close>

definition save_tasks :: "jval list \<Rightarrow> store \<Rightarrow> py_error + store" where
  "save_tasks tasks st =
     (if writable st then
        Inr (st\<lparr>data_file :=
                  (case data_file st of
                     Absent \<Rightarrow> Present True (Inr tasks)
                   | Present can_open loaded \<Rightarrow> Present can_open (Inr tasks))\<rparr>)
      else Inl OSError)"

text \<open>
  \<open>int(ref)\<close> on a string: surrounding whitespace (the code points 9 to 13, 32, 133 and
  160) is stripped, then an optional sign and decimal digits, single underscores allowed
  between digits.  \<open>None\<close> stands for the
  \<open>ValueError\<close> that the caller catches.  (The interpreter's limit on the number of
  digits is not modelled.)
\<close>

definition is_space :: "char \<Rightarrow> bool" where
  "is_space c = ((of_char c :: nat) \<in> {9, 10, 11, 12, 13, 32, 133, 160})"

definition strip :: "string \<Rightarrow> string" where
  "strip s = rev (dropWhile is_space (rev (dropWhile is_space s)))"

definition is_digit :: "char \<Rightarrow> bool" where
  "is_digit c = (48 \<le> (of_char c :: nat) \<and> (of_char c :: nat) \<le> 57)"

definition digit_value :: "char \<Rightarrow> nat" where
  "digit_value c = (of_char c :: nat) - 48"

fun digits :: "string \<Rightarrow> nat \<Rightarrow> nat option" where
  "digits [] acc = Some acc"
| "digits (c # cs) acc =
     (if is_digit c then digits cs (10 * acc + digit_value c)
      else if c = CHR ''_'' \<and> cs \<noteq> [] \<and> is_digit (hd cs) then digits cs acc
      else None)"

definition unsigned :: "string \<Rightarrow> nat option" where
  "unsigned s = (case s of [] \<Rightarrow> None | c # cs \<Rightarrow> if is_digit c then digits s 0 else None)"

definition py_int :: "string \<Rightarrow> int option" where
  "py_int s =
     (case strip s of
        [] \<Rightarrow> None
      | c # cs \<Rightarrow>
          if c = CHR ''-'' then map_option (\<lambda>n. - int n) (unsigned cs)
          else if c = CHR ''+'' then map_option int (unsigned cs)
          else map_option int (unsigned (c # cs)))"

text \<open>
  \<open>t.get("task", "").lower()\<close> for an element \<open>t\<close> of the list: only a dictionary has
  \<open>get\<close>, only a string has \<open>lower\<close>.
\<close>

definition task_text :: "jval \<Rightarrow> py_error + string" where
  "task_text t =
     (case t of
        JObj kvs \<Rightarrow>
          (case map_of kvs ''task'' of
             None \<Rightarrow> Inr (lower [])
           | Some (JStr s) \<Rightarrow> Inr (lower s)
           | Some _ \<Rightarrow> Inl AttributeError)
      | _ \<Rightarrow> Inl AttributeError)"

text \<open>The loop \<open>for i, t in enumerate(tasks)\<close>, from position \<open>i\<close> on.\<close>

fun first_containing :: "string \<Rightarrow> nat \<Rightarrow> jval list \<Rightarrow> py_error + nat option" where
  "first_containing q i [] = Inr None"
| "first_containing q i (t # ts) =
     (case task_text t of
        Inl e \<Rightarrow> Inl e
      | Inr d \<Rightarrow> if py_in q d then Inr (Some i) else first_containing q (Suc i) ts)"

datatype task_ref = IntRef int | StrRef string

text \<open>\<open>_find_task_index(ref)\<close>.\<close>

definition find_task_index :: "task_ref \<Rightarrow> store \<Rightarrow> py_error + nat option" where
  "find_task_index ref st =
     (case load_tasks st of
        Inl e \<Rightarrow> Inl e
      | Inr tasks \<Rightarrow>
          (case ref of
             IntRef r \<Rightarrow>
               if 0 \<le> r \<and> r < int (length tasks) then Inr (Some (nat r)) else Inr None
           | StrRef s \<Rightarrow>
               (case py_int s of
                  Some idx \<Rightarrow>
                    if 0 \<le> idx \<and> idx < int (length tasks) then Inr (Some (nat idx))
                    else first_containing (lower s) 0 tasks
                | None \<Rightarrow> first_containing (lower s) 0 tasks)))"

text \<open>
  The dictionary an action returns.  The message of a successful \<open>reassign\<close> is the
  f-string \<open>Reassigned from {old} to {new_owner}\<close>, kept as its two arguments.
\<close>

datatype message = Text string | ReassignedFromTo jval string

record action_result =
  success :: bool
  message :: message
  index :: "nat option"

text \<open>\<open>TaskAgent.reassign(task_ref, new_owner)\<close>: the result or the exception, and the store afterwards.\<close>

definition reassign :: "task_ref \<Rightarrow> string \<Rightarrow> store \<Rightarrow> (py_error + action_result) \<times> store" where
  "reassign ref new_owner st =
     (case find_task_index ref st of
        Inl e \<Rightarrow> (Inl e, st)
      | Inr None \<Rightarrow>
          (Inr \<lparr>success = False, message = Text ''Task not found'', index = None\<rparr>, st)
      | Inr (Some idx) \<Rightarrow>
          (case load_tasks st of
             Inl e \<Rightarrow> (Inl e, st)
           | Inr tasks \<Rightarrow>
               if length tasks \<le> idx then (Inl IndexError, st)
               else
                 (case tasks ! idx of
                    JObj kvs \<Rightarrow>
                      (let old = (case map_of kvs ''owner'' of None \<Rightarrow> JNull | Some v \<Rightarrow> v);
                           tasks' = tasks[idx := JObj (AList.update ''owner'' (JStr new_owner) kvs)]
                       in case save_tasks tasks' st of
                            Inl e \<Rightarrow> (Inl e, st)
                          | Inr st' \<Rightarrow>
                              (Inr \<lparr>success = True, message = ReassignedFromTo old new_owner,
                                    index = Some idx\<rparr>, st'))
                  | _ \<Rightarrow> (Inl AttributeError, st))))"

section \<open>ai\_agent.py: the agents\<close>

record reply =
  response :: string
  action :: string
  reply_confidence :: string

text \<open>The check mark U+2705 and the dash U+2014 of the response texts, outside the modelled range of code points.\<close>

definition check_mark :: string where
  "check_mark = ''U+2705''"

definition em_dash :: string where
  "em_dash = ''U+2014''"

definition task_keywords :: "(string \<times> string list) list" where
  "task_keywords =
     [ (''send'', [''send'', ''email'', ''submit'']),
       (''review'', [''review'', ''check'', ''verify'']),
       (''schedule'', [''schedule'', ''book'', ''meeting'', ''call'']),
       (''approve'', [''approve'', ''accept'', ''authorize'']),
       (''process'', [''process'', ''handle'', ''execute'']),
       (''invoice'', [''invoice'', ''billing'', ''payment'']),
       (''training'', [''training'', ''learn'', ''course'']),
       (''feedback'', [''feedback'', ''comment'', ''opinion'']) ]"

fun first_category :: "(string \<times> string list) list \<Rightarrow> string \<Rightarrow> string" where
  "first_category [] t = ''general''"
| "first_category ((category, keywords) # rest) t =
     (if any_in keywords t then category else first_category rest t)"

definition categorize_task :: "string \<Rightarrow> string" where
  "categorize_task task_description = first_category task_keywords (lower task_description)"

text \<open>\<open>TaskAgent.get_response\<close>; \<open>category\<close> is computed and not used.\<close>

definition get_response :: "string \<Rightarrow> string \<Rightarrow> string \<Rightarrow> reply" where
  "get_response task_description user_message task_owner =
     (let category = categorize_task task_description;
          text = lower user_message
      in if any_in [''done'', ''completed'', ''finished'', ''complete''] text then
           \<lparr>response = check_mark @ '' Marking '' @ [CHR 0x27] @ task_description @ [CHR 0x27] @ '' complete.'',
            action = ''complete'', reply_confidence = ''high''\<rparr>
         else if any_in [''help'', ''how'', ''guide'', ''steps'', ''what''] text then
           \<lparr>response = ''I can guide you through: '' @ task_description
                         @ ''. Tell me which step you need help with.'',
            action = ''guide'', reply_confidence = ''medium''\<rparr>
         else if any_in [''send'', ''email'', ''submit''] text then
           \<lparr>response = ''I can send or prepare this item for you: '' @ task_description
                         @ ''. Confirm recipients or provide message body.'',
            action = ''send'', reply_confidence = ''high''\<rparr>
         else if any_in [''schedule'', ''book'', ''when'', ''time'', ''date''] text then
           \<lparr>response = ''I can schedule '' @ [CHR 0x27] @ task_description @ [CHR 0x27]
                         @ ''. Please provide a preferred date/time.'',
            action = ''schedule'', reply_confidence = ''medium''\<rparr>
         else if any_in [''reassign'', ''assign to'', ''change owner'', ''assign''] text then
           \<lparr>response = ''Who should I assign '' @ [CHR 0x27] @ task_description @ [CHR 0x27] @ '' to?'',
            action = ''reassign'', reply_confidence = ''medium''\<rparr>
         else
           \<lparr>response = ''Got it. For '' @ [CHR 0x27] @ task_description @ [CHR 0x27]
                         @ '' I can guide, send, schedule, reassign, or mark complete. What would you like me to do?'',
            action = ''acknowledge'', reply_confidence = ''low''\<rparr>)"

text \<open>
  The optional backend: \<open>_nlp\<close> is \<open>None\<close> or a pipeline that turns a message into
  tokens, of which the agent reads \<open>dep_\<close> and \<open>lemma_\<close>.
\<close>

record token =
  tok_dep :: string
  tok_lemma :: string

type_synonym pipeline = "string \<Rightarrow> token list"

definition root_vocabulary :: "string list" where
  "root_vocabulary =
     [''send'', ''schedule'', ''approve'', ''review'', ''process'', ''complete'', ''reassign'']"

text \<open>The loop over \<open>doc\<close>: the first \<open>ROOT\<close> token whose lower-cased lemma is in the vocabulary.\<close>

fun root_intent :: "token list \<Rightarrow> string option" where
  "root_intent [] = None"
| "root_intent (t # ts) =
     (if tok_dep t = ''ROOT'' \<and> lower (tok_lemma t) \<in> set root_vocabulary
      then Some (lower (tok_lemma t)) else root_intent ts)"

text \<open>The six keyword tests of \<open>NLPAgent._extract_intent\<close>, in source order.\<close>

definition keyword_intent :: "string \<Rightarrow> string option" where
  "keyword_intent text =
     (if any_in [''done'', ''completed'', ''finished'', ''complete''] text then Some ''complete''
      else if any_in [''help'', ''how'', ''guide'', ''steps'', ''what''] text then Some ''guide''
      else if any_in [''schedule'', ''book'', ''meeting'', ''call'', ''time'', ''date''] text
        then Some ''schedule''
      else if any_in [''send'', ''email'', ''submit''] text then Some ''send''
      else if any_in [''approve'', ''approve this'', ''sign off'', ''authorize''] text
        then Some ''approve''
      else if any_in [''reassign'', ''assign to'', ''assign''] text then Some ''reassign''
      else None)"

definition extract_intent :: "pipeline option \<Rightarrow> string \<Rightarrow> string" where
  "extract_intent nlp user_message =
     (case keyword_intent (lower user_message) of
        Some intent \<Rightarrow> intent
      | None \<Rightarrow>
          (case nlp of
             None \<Rightarrow> ''acknowledge''
           | Some pipe \<Rightarrow>
               (case root_intent (pipe user_message) of
                  Some lem \<Rightarrow> lem
                | None \<Rightarrow> ''acknowledge'')))"

text \<open>\<open>NLPAgent.get_response\<close>, with \<open>self.nlp\<close> as a parameter.\<close>

definition nlp_get_response :: "pipeline option \<Rightarrow> string \<Rightarrow> string \<Rightarrow> string \<Rightarrow> reply" where
  "nlp_get_response nlp task_description user_message task_owner =
     (if nlp = None then get_response task_description user_message task_owner
      else
        (let intent = extract_intent nlp user_message
         in if intent = ''complete'' then
              \<lparr>response = check_mark @ '' Got it '' @ em_dash @ '' I'' @ [CHR 0x27] @ ''ll mark ''
                            @ [CHR 0x27] @ task_description @ [CHR 0x27] @ '' complete.'',
               action = ''complete'', reply_confidence = ''high''\<rparr>
            else if intent \<in> set [''send'', ''schedule'', ''approve'', ''review'', ''process'', ''reassign'']
              then get_response task_description user_message task_owner
            else get_response task_description user_message task_owner))"

text \<open>The confidence that the specification lists for each action (section 4.2).\<close>

definition spec_confidence :: "string \<Rightarrow> string option" where
  "spec_confidence =
     map_of [ (''complete'', ''high''), (''guide'', ''medium''), (''send'', ''high''),
              (''schedule'', ''medium''), (''reassign'', ''medium''), (''acknowledge'', ''low'') ]"


section \<open>Strings and rule chains: basic facts\<close>

lemma starts_with_prefix: "starts_with t p \<longleftrightarrow> prefix p t"
  by (induction t p rule: starts_with.induct) auto

lemma py_in_sublist: "py_in p t \<longleftrightarrow> sublist p t"
  by (induction t) (auto simp: starts_with_prefix sublist_Cons_right)

lemma first_match_append:
  "first_match (rs @ rs') d = (if list_ex fst rs then first_match rs d else first_match rs' d)"
  by (induction rs d rule: first_match.induct) simp_all

lemma first_match_none: "\<not> list_ex fst rs \<Longrightarrow> first_match rs d = d"
  by (induction rs d rule: first_match.induct) simp_all

lemma first_match_in: "list_ex fst rs \<Longrightarrow> (True, first_match rs d) \<in> set rs"
proof (induction rs d rule: first_match.induct)
  case (1 d)
  then show ?case by simp
next
  case (2 c r rs d)
  show ?case
  proof (cases c)
    case True
    then show ?thesis by simp
  next
    case False
    with 2 show ?thesis by simp
  qed
qed

lemma extract_task_fst:
  "fst (extract_task now content src subj log) =
     candidate_of src subj
       (first_match (rules_for now src (lower (or_empty content)) (lower (or_empty subj))
                       (combined content subj) subj) initial_locals)"
  by (simp add: extract_task_def candidate_of_def combined_def Let_def split: sum.splits prod.splits)

section \<open>The rule chains of extract\_task\<close>

lemma task_outcome_found: "t \<noteq> [] \<Longrightarrow> c = ''high'' \<or> c = ''medium'' \<or> c = ''low'' \<Longrightarrow> task_outcome (found t a d c)"
  by (simp add: task_outcome_def found_def truthy_def)

lemma task_outcome_found_with_subject:
  "pre \<noteq> [] \<Longrightarrow> c = ''high'' \<or> c = ''medium'' \<or> c = ''low'' \<Longrightarrow> task_outcome (found_with_subject pre subj a d c)"
  by (simp add: task_outcome_def found_with_subject_def truthy_def split: sum.splits)

lemma email_task_rules_outcomes:
  "list_all (\<lambda>cr. task_outcome (snd cr)) (email_task_rules now ct st subj)"
  unfolding email_task_rules_def list_all_Cons_iff list_all_Nil_iff snd_conv
  by (intro conjI TrueI task_outcome_found task_outcome_found_with_subject; simp)

lemma first_match_task_outcome:
  assumes "list_all (\<lambda>cr. task_outcome (snd cr)) rs" and "list_ex fst rs"
  shows "task_outcome (first_match rs d)"
proof -
  have "(True, first_match rs d) \<in> set rs" using assms(2) by (rule first_match_in)
  with assms(1) show ?thesis by (auto simp: list_all_iff)
qed

lemma email_chain:
  "first_match (email_rules now ct st subj) initial_locals =
     (if list_ex fst (email_task_rules now ct st subj)
      then first_match (email_task_rules now ct st subj) initial_locals
      else if no_action_markers ct then initial_locals
      else if any_in directive_words ct
        then found_with_subject ''Review and respond: '' subj ''You'' (in_days now 2) ''low''
      else initial_locals)"
  by (simp add: email_rules_def first_match_append no_action_rule_def directive_rule_def
        initial_locals_def)

lemma first_index_None: "first_index rs = None \<longleftrightarrow> \<not> list_ex fst rs"
  by (induction rs rule: first_index.induct) simp_all

lemma first_index_less: "first_index rs = Some i \<Longrightarrow> i < length rs"
proof (induction rs arbitrary: i rule: first_index.induct)
  case 1
  then show ?case by simp
next
  case (2 c r rs)
  show ?case
  proof (cases c)
    case True
    with 2 show ?thesis by simp
  next
    case False
    with 2 show ?thesis by (cases "first_index rs") simp_all
  qed
qed

lemma first_index_append:
  "first_index (rs @ rs') =
     (if list_ex fst rs then first_index rs
      else map_option (\<lambda>i. length rs + i) (first_index rs'))"
proof (induction rs rule: first_index.induct)
  case 1
  show ?case by (cases "first_index rs'") simp_all
next
  case (2 c r rs)
  show ?case
  proof (cases c)
    case True
    then show ?thesis by simp
  next
    case False
    with 2 show ?thesis by (cases "first_index rs'") simp_all
  qed
qed

lemma first_index_conditions:
  "map fst rs = map fst rs' \<Longrightarrow> first_index rs = first_index rs'"
proof (induction rs arbitrary: rs' rule: first_index.induct)
  case 1
  then show ?case by simp
next
  case (2 c r rs)
  then obtain c' r' rs'' where rs': "rs' = (c', r') # rs''"
    by (cases rs') auto
  with 2 show ?case by (cases c) simp_all
qed

lemma length_email_task_rules: "length (email_task_rules now ct st subj) = 23"
  by (simp add: email_task_rules_def)

lemma email_no_action_position:
  "email_rules now ct st subj ! 23 = no_action_rule ct"
  by (simp add: email_rules_def nth_append length_email_task_rules)

lemma email_branch:
  "first_index (email_rules now ct st subj) =
     (if list_ex fst (email_task_rules now ct st subj)
      then first_index (email_task_rules now ct st subj)
      else if no_action_markers ct then Some 23
      else if any_in directive_words ct then Some 24
      else None)"
  by (simp add: email_rules_def first_index_append length_email_task_rules
        no_action_rule_def directive_rule_def)

lemma email_task_branch:
  assumes "list_ex fst (email_task_rules now ct st subj)"
  shows "\<exists>i. first_index (email_task_rules now ct st subj) = Some i \<and> i < 23"
proof -
  from assms obtain i where i: "first_index (email_task_rules now ct st subj) = Some i"
    using first_index_None [of "email_task_rules now ct st subj"] by (cases "first_index (email_task_rules now ct st subj)") auto
  then have "i < 23"
    using first_index_less [OF i] by (simp add: length_email_task_rules)
  with i show ?thesis by blast
qed

lemma chain_outcome:
  "((\<exists>i. branch_taken now content src subj = Some i \<and> \<not> no_action_branch src i) \<longrightarrow>
      task_outcome (first_match (rules_for now src (lower (or_empty content)) (lower (or_empty subj))
                       (combined content subj) subj) initial_locals))
   \<and> (\<not> (\<exists>i. branch_taken now content src subj = Some i \<and> \<not> no_action_branch src i) \<longrightarrow>
      first_match (rules_for now src (lower (or_empty content)) (lower (or_empty subj))
                       (combined content subj) subj) initial_locals = initial_locals)"
proof -
  consider (email) "src = ''email''" | (calendar) "src \<noteq> ''email''" "src = ''calendar''"
    | (slack) "src \<noteq> ''email''" "src \<noteq> ''calendar''" "src = ''slack''"
    | (other) "src \<noteq> ''email''" "src \<noteq> ''calendar''" "src \<noteq> ''slack''"
    by blast
  then show ?thesis
  proof cases
    case email
    let ?ct = "combined content subj" and ?st = "lower (or_empty subj)"
    show ?thesis
    proof (cases "list_ex fst (email_task_rules now ?ct ?st subj)")
      case True
      then obtain i where "first_index (email_task_rules now ?ct ?st subj) = Some i" "i < 23"
        using email_task_branch by blast
      with True email show ?thesis
        by (simp add: branch_taken_def no_action_branch_def Let_def rules_for_def
              combined_def email_chain email_branch
              first_match_task_outcome [OF email_task_rules_outcomes])
    next
      case False
      with email show ?thesis
        by (simp add: branch_taken_def no_action_branch_def Let_def rules_for_def
              combined_def email_chain email_branch task_outcome_found_with_subject)
    qed
  next
    case calendar
    then show ?thesis
      by (simp add: branch_taken_def no_action_branch_def Let_def rules_for_def
            calendar_rules_def task_outcome_found)
  next
    case slack
    then show ?thesis
      by (simp add: branch_taken_def no_action_branch_def Let_def rules_for_def
            slack_rules_def task_outcome_found)
  next
    case other
    then show ?thesis
      by (simp add: branch_taken_def no_action_branch_def Let_def rules_for_def)
  qed
qed

lemma branch_taken_matched:
  assumes "branch_taken now content src subj = Some i"
  shows "some_rule_matched now content src subj"
proof -
  from assms have "first_index (rules_for now src (lower (or_empty content))
      (lower (or_empty subj)) (lower (or_empty content) @ '' '' @ lower (or_empty subj)) subj)
        \<noteq> None"
    by (simp add: branch_taken_def Let_def)
  then show ?thesis
    by (simp add: some_rule_matched_def Let_def first_index_None)
qed

lemma email_conditions:
  "py_in ''urgent'' st = py_in ''urgent'' st' \<Longrightarrow>
   map fst (email_rules now ct st subj) = map fst (email_rules now' ct st' subj')"
  by (simp add: email_rules_def email_task_rules_def no_action_rule_def directive_rule_def)

lemma found_with_subject_Some:
  "found_with_subject pre (Some s) a d c = Inr (Some (pre @ take 50 s), a, Some d, c)"
  by (simp add: found_with_subject_def slice50_def)

lemma email_task_rules_return:
  "list_all (\<lambda>cr. \<exists>v. snd cr = Inr v) (email_task_rules now ct st (Some s))"
  unfolding email_task_rules_def list_all_Cons_iff list_all_Nil_iff snd_conv
  by (simp add: found_def found_with_subject_Some)

lemma first_match_returns:
  assumes "list_all (\<lambda>cr. \<exists>v. snd cr = Inr v) rs" and "\<exists>v. d = Inr v"
  shows "\<exists>v. first_match rs d = Inr v"
  using assms by (induction rs d rule: first_match.induct) simp_all

lemma extract_task_returns:
  "\<exists>c. fst (extract_task now content src (Some s) log) = Inr c"
proof -
  have "list_all (\<lambda>cr. \<exists>v. snd cr = Inr v)
          (rules_for now src (lower (or_empty content)) (lower (or_empty (Some s)))
             (combined content (Some s)) (Some s))"
    using email_task_rules_return
    by (simp add: rules_for_def email_rules_def no_action_rule_def directive_rule_def
          found_with_subject_Some calendar_rules_def slack_rules_def found_def)
  then obtain v where
    "first_match (rules_for now src (lower (or_empty content)) (lower (or_empty (Some s)))
             (combined content (Some s)) (Some s)) initial_locals = Inr v"
    using first_match_returns by (fastforce simp: initial_locals_def)
  then show ?thesis
    by (cases v) (simp add: extract_task_fst candidate_of_def)
qed

lemma extract_task_snd:
  "snd (extract_task now content src subj log) = log
   \<or> (\<exists>e. snd (extract_task now content src subj log) = log @ [e])"
  by (simp add: extract_task_def Let_def split: sum.splits prod.splits)

lemma email_first_rule:
  "py_in ''revised document'' ct \<Longrightarrow>
   first_match (email_rules now ct st subj) d
     = found ''Send the revised document'' ''Ravindu'' (Label ''Friday'') ''high''"
  by (simp add: email_rules_def email_task_rules_def)

lemma email_catch_all_chain:
  assumes "\<not> list_ex fst (email_task_rules now ct st subj)"
  shows "first_match (email_rules now ct st subj) initial_locals =
      (if no_action_markers ct then initial_locals
       else if any_in directive_words ct
         then found_with_subject ''Review and respond: '' subj ''You'' (in_days now 2) ''low''
       else initial_locals)"
  using assms by (simp add: email_chain)

lemma py_in_append_right: "py_in p b \<Longrightarrow> py_in p (a @ b)"
  unfolding py_in_sublist by (metis sublist_append)

lemma slack_chain:
  "first_match (rules_for now ''slack'' text st ct subj) initial_locals =
     (if py_in ''check'' text \<and> py_in ''logs'' text
        then found ''Check server logs'' ''You'' (in_days now 1) ''medium''
      else if py_in ''deployment'' text
        then found ''Update deployment checklist'' ''You'' (in_days now 2) ''medium''
      else initial_locals)"
  by (simp add: rules_for_def slack_rules_def)

lemma calendar_chain:
  "first_match (rules_for now ''calendar'' text st ct subj) initial_locals =
     (if py_in ''prepare'' text
        then found ''Prepare meeting summary'' ''You'' (in_days now 1) ''high''
      else initial_locals)"
  by (simp add: rules_for_def calendar_rules_def)

section \<open>Claims about extract\_task\<close>

text \<open>
  Claim C1.  For every email whose lower-cased combined buffer contains
  \<open>revised document\<close>, whatever else the buffer contains (the phrase \<open>invoice\<close> of a
  later branch included), \<open>extract_task\<close> returns task \<open>Send the revised document\<close>,
  assignee \<open>Ravindu\<close>, deadline \<open>Friday\<close> and confidence \<open>high\<close>: the first branch of
  the chain is the one taken.
\<close>

theorem extract_task_revised_document:
  assumes "py_in ''revised document'' (combined content subj)"
  shows "fst (extract_task now content ''email'' subj log) =
     Inr \<lparr>task = Some ''Send the revised document'', assignee = ''Ravindu'',
          deadline = Some (Label ''Friday''), confidence = ''high'',
          source = ''email'', subject_or_channel = subj\<rparr>"
  using assms
  by (simp add: extract_task_fst rules_for_def email_first_rule candidate_of_def found_def)

theorem extract_task_revised_document_witness:
  "py_in ''revised document''
     (combined (Some ''Please send the revised document by Friday'') (Some ''Document Update''))
   \<and> fst (extract_task \<lparr>dt_day = 739925, dt_usec = 0\<rparr>
            (Some ''Please send the revised document by Friday'') ''email''
            (Some ''Document Update'') []) =
     Inr \<lparr>task = Some ''Send the revised document'', assignee = ''Ravindu'',
          deadline = Some (Label ''Friday''), confidence = ''high'',
          source = ''email'', subject_or_channel = Some ''Document Update''\<rparr>
   \<and> py_in ''revised document''
     (combined (Some ''Invoice attached; the revised document follows'') (Some ''Billing''))
   \<and> py_in ''invoice''
     (combined (Some ''Invoice attached; the revised document follows'') (Some ''Billing''))
   \<and> fst (extract_task \<lparr>dt_day = 739925, dt_usec = 0\<rparr>
            (Some ''Invoice attached; the revised document follows'') ''email''
            (Some ''Billing'') []) =
     Inr \<lparr>task = Some ''Send the revised document'', assignee = ''Ravindu'',
          deadline = Some (Label ''Friday''), confidence = ''high'',
          source = ''email'', subject_or_channel = Some ''Billing''\<rparr>"
proof -
  have a: "py_in ''revised document''
     (combined (Some ''Please send the revised document by Friday'') (Some ''Document Update''))"
    by code_simp
  have b: "py_in ''revised document''
     (combined (Some ''Invoice attached; the revised document follows'') (Some ''Billing''))"
    by code_simp
  have c: "py_in ''invoice''
     (combined (Some ''Invoice attached; the revised document follows'') (Some ''Billing''))"
    by code_simp
  show ?thesis
    using a b c extract_task_revised_document [OF a] extract_task_revised_document [OF b]
    by simp
qed

text \<open>
  Claim C2, as stated: with no earlier branch taken, a directive word gives the
  low-confidence \<open>Review and respond\<close> task even beside a no-action marker.  The chain
  tests the no-action markers first: the email below has no phrase of the 23 earlier
  branches, has \<open>please\<close> and \<open>fyi\<close>, and comes back with no task.
\<close>

theorem email_catch_all_counterexample:
  "\<not> list_ex fst (email_task_rules \<lparr>dt_day = 739925, dt_usec = 0\<rparr>
         (combined (Some ''FYI, please enjoy the weekend'') (Some ''Hello''))
         (lower (or_empty (Some ''Hello''))) (Some ''Hello''))
   \<and> any_in directive_words (combined (Some ''FYI, please enjoy the weekend'') (Some ''Hello''))
   \<and> py_in ''fyi'' (combined (Some ''FYI, please enjoy the weekend'') (Some ''Hello''))
   \<and> fst (extract_task \<lparr>dt_day = 739925, dt_usec = 0\<rparr>
             (Some ''FYI, please enjoy the weekend'') ''email'' (Some ''Hello'') []) =
       Inr \<lparr>task = None, assignee = ''You'', deadline = None, confidence = ''low'',
            source = ''email'', subject_or_channel = Some ''Hello''\<rparr>"
  by code_simp

text \<open>
  Claim C2, amended.  For an email on which none of the 23 earlier conditions holds:
  if the buffer has a no-action marker (\<open>no action\<close>, \<open>fyi\<close>, \<open>digest\<close>, \<open>resolved\<close>,
  \<open>deployment\<close>) the task is absent with confidence \<open>low\<close>, directive words or not;
  otherwise, if it has a directive word, the result for a subject \<open>s\<close> is the task
  \<open>Review and respond: \<close> followed by the first 50 characters of \<open>s\<close>, owner \<open>You\<close>,
  deadline two days on and confidence \<open>low\<close>; otherwise the task is absent.
\<close>

theorem email_catch_all:
  assumes "\<not> list_ex fst (email_task_rules now (combined content subj) (lower (or_empty subj)) subj)"
  shows "(no_action_markers (combined content subj) \<longrightarrow>
            fst (extract_task now content ''email'' subj log) =
              Inr \<lparr>task = None, assignee = ''You'', deadline = None, confidence = ''low'',
                   source = ''email'', subject_or_channel = subj\<rparr>)
       \<and> (\<not> no_action_markers (combined content subj)
            \<and> any_in directive_words (combined content subj) \<longrightarrow>
            (\<forall>s. subj = Some s \<longrightarrow>
              fst (extract_task now content ''email'' subj log) =
                Inr \<lparr>task = Some (''Review and respond: '' @ take 50 s), assignee = ''You'',
                     deadline = Some (in_days now 2), confidence = ''low'',
                     source = ''email'', subject_or_channel = subj\<rparr>))
       \<and> (\<not> no_action_markers (combined content subj)
            \<and> \<not> any_in directive_words (combined content subj) \<longrightarrow>
            fst (extract_task now content ''email'' subj log) =
              Inr \<lparr>task = None, assignee = ''You'', deadline = None, confidence = ''low'',
                   source = ''email'', subject_or_channel = subj\<rparr>)"
proof -
  have chain: "first_match (rules_for now ''email'' (lower (or_empty content)) (lower (or_empty subj))
                  (combined content subj) subj) initial_locals =
      (if no_action_markers (combined content subj) then initial_locals
       else if any_in directive_words (combined content subj)
         then found_with_subject ''Review and respond: '' subj ''You'' (in_days now 2) ''low''
       else initial_locals)"
    using email_catch_all_chain [OF assms] by (simp add: rules_for_def)
  show ?thesis
    unfolding extract_task_fst chain
    by (cases subj) (simp_all add: candidate_of_def initial_locals_def found_with_subject_Some)
qed

theorem email_catch_all_witness:
  "\<not> list_ex fst (email_task_rules \<lparr>dt_day = 739925, dt_usec = 0\<rparr>
         (combined (Some ''Could you look at this'') (Some ''Hello''))
         (lower (or_empty (Some ''Hello''))) (Some ''Hello''))
   \<and> \<not> no_action_markers (combined (Some ''Could you look at this'') (Some ''Hello''))
   \<and> any_in directive_words (combined (Some ''Could you look at this'') (Some ''Hello''))
   \<and> fst (extract_task \<lparr>dt_day = 739925, dt_usec = 0\<rparr>
             (Some ''Could you look at this'') ''email'' (Some ''Hello'') []) =
       Inr \<lparr>task = Some ''Review and respond: Hello'', assignee = ''You'',
            deadline = Some (IsoDate 739927), confidence = ''low'',
            source = ''email'', subject_or_channel = Some ''Hello''\<rparr>"
proof -
  have a: "\<not> list_ex fst (email_task_rules \<lparr>dt_day = 739925, dt_usec = 0\<rparr>
         (combined (Some ''Could you look at this'') (Some ''Hello''))
         (lower (or_empty (Some ''Hello''))) (Some ''Hello''))"
    by code_simp
  have b: "\<not> no_action_markers (combined (Some ''Could you look at this'') (Some ''Hello''))"
    by code_simp
  have c: "any_in directive_words (combined (Some ''Could you look at this'') (Some ''Hello''))"
    by code_simp
  show ?thesis
    using a b c email_catch_all [OF a, of "[]"]
    by (simp add: in_days_def)
qed

text \<open>
  Claim C3, as stated: for every source the conditions are tested on the concatenation
  of content and channel, so that a slack message whose channel name contains
  \<open>deployment\<close> yields \<open>Update deployment checklist\<close>.  The calendar and slack chains
  test \<open>text\<close>, the lower-cased content alone: the message below has \<open>deployment\<close> in its
  channel name, hence in the combined buffer, and comes back with no task.
\<close>

theorem extract_task_matching_buffer_counterexample:
  "py_in ''deployment'' (combined (Some ''Hello team'') (Some ''deployment''))
   \<and> fst (extract_task \<lparr>dt_day = 739925, dt_usec = 0\<rparr>
             (Some ''Hello team'') ''slack'' (Some ''deployment'') []) =
       Inr \<lparr>task = None, assignee = ''You'', deadline = None, confidence = ''low'',
            source = ''slack'', subject_or_channel = Some ''deployment''\<rparr>"
  by code_simp

text \<open>
  Claim C3, amended.  In the email chain, which branch is taken depends on the content
  and the subject only through the lower-cased concatenation of the two and through
  whether the lower-cased subject alone contains \<open>urgent\<close>, the one condition not read
  from the concatenation; so \<open>revised document\<close> in the subject alone gives the first
  branch's result.  The slack and calendar chains read the lower-cased content only,
  whatever the channel name: a slack message yields \<open>Check server logs\<close> with
  confidence \<open>medium\<close> when its content contains \<open>check\<close> and \<open>logs\<close>, otherwise
  \<open>Update deployment checklist\<close> with confidence \<open>medium\<close> when its content contains
  \<open>deployment\<close>, otherwise no task; a calendar entry yields \<open>Prepare meeting summary\<close>
  with confidence \<open>high\<close> when its content contains \<open>prepare\<close>, otherwise no task.
\<close>

theorem extract_task_matching_buffer:
  "(combined content subj = combined content' subj'
      \<and> py_in ''urgent'' (lower (or_empty subj)) = py_in ''urgent'' (lower (or_empty subj')) \<longrightarrow>
      branch_taken now content ''email'' subj = branch_taken now' content' ''email'' subj')
   \<and> (py_in ''revised document'' (lower (or_empty subj)) \<longrightarrow>
      fst (extract_task now content ''email'' subj log) =
        Inr \<lparr>task = Some ''Send the revised document'', assignee = ''Ravindu'',
             deadline = Some (Label ''Friday''), confidence = ''high'',
             source = ''email'', subject_or_channel = subj\<rparr>)
   \<and> fst (extract_task now content ''slack'' subj log) =
       (if py_in ''check'' (lower (or_empty content)) \<and> py_in ''logs'' (lower (or_empty content))
        then Inr \<lparr>task = Some ''Check server logs'', assignee = ''You'',
                  deadline = Some (in_days now 1), confidence = ''medium'',
                  source = ''slack'', subject_or_channel = subj\<rparr>
        else if py_in ''deployment'' (lower (or_empty content))
        then Inr \<lparr>task = Some ''Update deployment checklist'', assignee = ''You'',
                  deadline = Some (in_days now 2), confidence = ''medium'',
                  source = ''slack'', subject_or_channel = subj\<rparr>
        else Inr \<lparr>task = None, assignee = ''You'', deadline = None, confidence = ''low'',
                  source = ''slack'', subject_or_channel = subj\<rparr>)
   \<and> fst (extract_task now content ''calendar'' subj log) =
       (if py_in ''prepare'' (lower (or_empty content))
        then Inr \<lparr>task = Some ''Prepare meeting summary'', assignee = ''You'',
                  deadline = Some (in_days now 1), confidence = ''high'',
                  source = ''calendar'', subject_or_channel = subj\<rparr>
        else Inr \<lparr>task = None, assignee = ''You'', deadline = None, confidence = ''low'',
                  source = ''calendar'', subject_or_channel = subj\<rparr>)"
proof (intro conjI impI)
  assume h: "combined content subj = combined content' subj'
      \<and> py_in ''urgent'' (lower (or_empty subj)) = py_in ''urgent'' (lower (or_empty subj'))"
  then have "map fst (email_rules now (combined content subj) (lower (or_empty subj)) subj)
           = map fst (email_rules now' (combined content' subj') (lower (or_empty subj')) subj')"
    using email_conditions [of "lower (or_empty subj)" "lower (or_empty subj')" now
        "combined content subj" subj now' subj']
    by simp
  then have "first_index (email_rules now (combined content subj) (lower (or_empty subj)) subj)
           = first_index (email_rules now' (combined content' subj') (lower (or_empty subj')) subj')"
    by (rule first_index_conditions)
  then show "branch_taken now content ''email'' subj = branch_taken now' content' ''email'' subj'"
    by (simp add: branch_taken_def Let_def rules_for_def combined_def)
next
  assume "py_in ''revised document'' (lower (or_empty subj))"
  then have "py_in ''revised document'' (combined content subj)"
    unfolding combined_def by (intro py_in_append_right)
  then show "fst (extract_task now content ''email'' subj log) =
        Inr \<lparr>task = Some ''Send the revised document'', assignee = ''Ravindu'',
             deadline = Some (Label ''Friday''), confidence = ''high'',
             source = ''email'', subject_or_channel = subj\<rparr>"
    by (simp add: extract_task_fst rules_for_def email_first_rule candidate_of_def found_def)
next
  show "fst (extract_task now content ''slack'' subj log) =
       (if py_in ''check'' (lower (or_empty content)) \<and> py_in ''logs'' (lower (or_empty content))
        then Inr \<lparr>task = Some ''Check server logs'', assignee = ''You'',
                  deadline = Some (in_days now 1), confidence = ''medium'',
                  source = ''slack'', subject_or_channel = subj\<rparr>
        else if py_in ''deployment'' (lower (or_empty content))
        then Inr \<lparr>task = Some ''Update deployment checklist'', assignee = ''You'',
                  deadline = Some (in_days now 2), confidence = ''medium'',
                  source = ''slack'', subject_or_channel = subj\<rparr>
        else Inr \<lparr>task = None, assignee = ''You'', deadline = None, confidence = ''low'',
                  source = ''slack'', subject_or_channel = subj\<rparr>)"
    unfolding extract_task_fst slack_chain
    by (simp add: candidate_of_def found_def initial_locals_def)
next
  show "fst (extract_task now content ''calendar'' subj log) =
       (if py_in ''prepare'' (lower (or_empty content))
        then Inr \<lparr>task = Some ''Prepare meeting summary'', assignee = ''You'',
                  deadline = Some (in_days now 1), confidence = ''high'',
                  source = ''calendar'', subject_or_channel = subj\<rparr>
        else Inr \<lparr>task = None, assignee = ''You'', deadline = None, confidence = ''low'',
                  source = ''calendar'', subject_or_channel = subj\<rparr>)"
    unfolding extract_task_fst calendar_chain
    by (simp add: candidate_of_def found_def initial_locals_def)
qed

theorem extract_task_matching_buffer_witness:
  "combined (Some ''Send BILLING'') (Some ''data'') = combined (Some ''send'') (Some ''Billing Data'')
   \<and> py_in ''urgent'' (lower (or_empty (Some ''data'')))
       = py_in ''urgent'' (lower (or_empty (Some ''Billing Data'')))
   \<and> branch_taken \<lparr>dt_day = 739925, dt_usec = 0\<rparr> (Some ''Send BILLING'') ''email'' (Some ''data'')
       = branch_taken \<lparr>dt_day = 739925, dt_usec = 0\<rparr> (Some ''send'') ''email'' (Some ''Billing Data'')
   \<and> branch_taken \<lparr>dt_day = 739925, dt_usec = 0\<rparr> (Some ''send'') ''email'' (Some ''Billing Data'')
       = Some 11
   \<and> combined (Some ''a urgent'') (Some ''b'') = combined (Some ''a'') (Some ''urgent b'')
   \<and> branch_taken \<lparr>dt_day = 739925, dt_usec = 0\<rparr> (Some ''a urgent'') ''email'' (Some ''b'') = None
   \<and> branch_taken \<lparr>dt_day = 739925, dt_usec = 0\<rparr> (Some ''a'') ''email'' (Some ''urgent b'') = Some 2
   \<and> py_in ''revised document'' (lower (or_empty (Some ''Revised document'')))
   \<and> fst (extract_task \<lparr>dt_day = 739925, dt_usec = 0\<rparr> (Some ''See attached'') ''email''
            (Some ''Revised document'') []) =
        Inr \<lparr>task = Some ''Send the revised document'', assignee = ''Ravindu'',
             deadline = Some (Label ''Friday''), confidence = ''high'',
             source = ''email'', subject_or_channel = Some ''Revised document''\<rparr>
   \<and> fst (extract_task \<lparr>dt_day = 739925, dt_usec = 0\<rparr> (Some ''please check the logs'') ''slack''
            (Some ''ops'') []) =
        Inr \<lparr>task = Some ''Check server logs'', assignee = ''You'',
             deadline = Some (IsoDate 739926), confidence = ''medium'',
             source = ''slack'', subject_or_channel = Some ''ops''\<rparr>"
proof -
  have a: "py_in ''revised document'' (lower (or_empty (Some ''Revised document'')))"
    by code_simp
  have b: "py_in ''check'' (lower (or_empty (Some ''please check the logs'')))
           \<and> py_in ''logs'' (lower (or_empty (Some ''please check the logs'')))"
    by code_simp
  have c: "combined (Some ''Send BILLING'') (Some ''data'')
             = combined (Some ''send'') (Some ''Billing Data'')"
    by code_simp
  have d: "py_in ''urgent'' (lower (or_empty (Some ''data'')))
       = py_in ''urgent'' (lower (or_empty (Some ''Billing Data'')))"
    by code_simp
  have e: "branch_taken \<lparr>dt_day = 739925, dt_usec = 0\<rparr> (Some ''send'') ''email''
             (Some ''Billing Data'') = Some 11"
    by code_simp
  have f: "combined (Some ''a urgent'') (Some ''b'') = combined (Some ''a'') (Some ''urgent b'')"
    by code_simp
  have g: "branch_taken \<lparr>dt_day = 739925, dt_usec = 0\<rparr> (Some ''a urgent'') ''email'' (Some ''b'')
             = None"
    by code_simp
  have h: "branch_taken \<lparr>dt_day = 739925, dt_usec = 0\<rparr> (Some ''a'') ''email'' (Some ''urgent b'')
             = Some 2"
    by code_simp
  show ?thesis
    using a b c d e f g h
      extract_task_matching_buffer [of "Some ''Send BILLING''" "Some ''data''" "Some ''send''"
        "Some ''Billing Data''" "\<lparr>dt_day = 739925, dt_usec = 0\<rparr>"
        "\<lparr>dt_day = 739925, dt_usec = 0\<rparr>" "[]"]
      extract_task_matching_buffer [of "Some ''See attached''" "Some ''Revised document''"
        "Some ''See attached''" "Some ''Revised document''" "\<lparr>dt_day = 739925, dt_usec = 0\<rparr>"
        "\<lparr>dt_day = 739925, dt_usec = 0\<rparr>" "[]"]
      extract_task_matching_buffer [of "Some ''please check the logs''" "Some ''ops''"
        "Some ''please check the logs''" "Some ''ops''" "\<lparr>dt_day = 739925, dt_usec = 0\<rparr>"
        "\<lparr>dt_day = 739925, dt_usec = 0\<rparr>" "[]"]
    by (simp add: in_days_def)
qed

text \<open>
  Claim C4, as stated: the task is present if and only if some rule matched.  The
  no-action branch of the email chain is a rule that matches and assigns no task: on the
  email below a condition of the chain holds and the task is absent.
\<close>

theorem extract_task_invariant_counterexample:
  "some_rule_matched \<lparr>dt_day = 739925, dt_usec = 0\<rparr>
       (Some ''FYI, deployment resolved'') ''email'' (Some ''Status'')
   \<and> fst (extract_task \<lparr>dt_day = 739925, dt_usec = 0\<rparr>
          (Some ''FYI, deployment resolved'') ''email'' (Some ''Status'') []) =
     Inr \<lparr>task = None, assignee = ''You'', deadline = None, confidence = ''low'',
          source = ''email'', subject_or_channel = Some ''Status''\<rparr>"
  by code_simp

text \<open>
  Claim C4, amended.  A call with a string as subject returns a candidate.  In every
  candidate returned the task is present if and only if a branch is taken and it is not
  the no-action branch of the email chain; a task present implies that some rule
  matched.  Without a task the candidate has no deadline and confidence \<open>low\<close>; with a
  task it has a deadline and one of the confidences \<open>high\<close>, \<open>medium\<close>, \<open>low\<close>.
\<close>

theorem extract_task_invariant:
  "(subj \<noteq> None \<longrightarrow> (\<exists>c. fst (extract_task now content src subj log) = Inr c))
   \<and> (\<forall>c. fst (extract_task now content src subj log) = Inr c \<longrightarrow>
        (task c \<noteq> None \<longleftrightarrow>
           (\<exists>i. branch_taken now content src subj = Some i \<and> \<not> no_action_branch src i))
        \<and> (task c \<noteq> None \<longrightarrow> some_rule_matched now content src subj)
        \<and> (task c = None \<longrightarrow> deadline c = None \<and> confidence c = ''low'')
        \<and> (task c \<noteq> None \<longrightarrow>
              deadline c \<noteq> None \<and> confidence c \<in> {''high'', ''medium'', ''low''}))"
proof (intro conjI impI allI)
  assume "subj \<noteq> None"
  then show "\<exists>c. fst (extract_task now content src subj log) = Inr c"
    using extract_task_returns by (cases subj) simp_all
next
  fix c
  assume r: "fst (extract_task now content src subj log) = Inr c"
  let ?o = "first_match (rules_for now src (lower (or_empty content)) (lower (or_empty subj))
                       (combined content subj) subj) initial_locals"
  let ?taken = "\<exists>i. branch_taken now content src subj = Some i \<and> \<not> no_action_branch src i"
  from r obtain t a d k where o: "?o = Inr (t, a, d, k)"
    and c: "c = \<lparr>task = t, assignee = a, deadline = d, confidence = k,
                source = src, subject_or_channel = subj\<rparr>"
    by (auto simp: extract_task_fst candidate_of_def split: sum.splits prod.splits)
  have m: "?taken \<Longrightarrow> t \<noteq> None \<and> d \<noteq> None \<and> (k = ''high'' \<or> k = ''medium'' \<or> k = ''low'')"
    using chain_outcome [of now content src subj] o
    by (auto simp: task_outcome_def truthy_def split: option.splits)
  have n: "\<not> ?taken \<Longrightarrow> t = None \<and> d = None \<and> k = ''low''"
    using chain_outcome [of now content src subj] o by (simp add: initial_locals_def)
  show iff: "(task c \<noteq> None) = ?taken"
    using m n c by (cases ?taken) auto
  show "some_rule_matched now content src subj" if "task c \<noteq> None"
    using iff that branch_taken_matched by blast
  show "deadline c = None" if "task c = None"
    using m n c that by (cases ?taken) auto
  show "confidence c = ''low''" if "task c = None"
    using m n c that by (cases ?taken) auto
  show "deadline c \<noteq> None" if "task c \<noteq> None"
    using m n c that by (cases ?taken) auto
  show "confidence c \<in> {''high'', ''medium'', ''low''}" if "task c \<noteq> None"
    using m n c that by (cases ?taken) auto
qed

theorem extract_task_invariant_witness:
  "fst (extract_task \<lparr>dt_day = 739925, dt_usec = 0\<rparr>
          (Some ''Can you prepare the slides'') ''calendar'' (Some ''Weekly sync'') []) =
     Inr \<lparr>task = Some ''Prepare meeting summary'', assignee = ''You'',
          deadline = Some (IsoDate 739926), confidence = ''high'',
          source = ''calendar'', subject_or_channel = Some ''Weekly sync''\<rparr>
   \<and> some_rule_matched \<lparr>dt_day = 739925, dt_usec = 0\<rparr>
         (Some ''Can you prepare the slides'') ''calendar'' (Some ''Weekly sync'')
   \<and> fst (extract_task \<lparr>dt_day = 739925, dt_usec = 0\<rparr>
          (Some ''FYI, deployment resolved'') ''email'' (Some ''Status'') []) =
     Inr \<lparr>task = None, assignee = ''You'', deadline = None, confidence = ''low'',
          source = ''email'', subject_or_channel = Some ''Status''\<rparr>
   \<and> branch_taken \<lparr>dt_day = 739925, dt_usec = 0\<rparr>
         (Some ''FYI, deployment resolved'') ''email'' (Some ''Status'') = Some 23
   \<and> \<not> (\<exists>i. branch_taken \<lparr>dt_day = 739925, dt_usec = 0\<rparr>
               (Some ''FYI, deployment resolved'') ''email'' (Some ''Status'') = Some i
             \<and> \<not> no_action_branch ''email'' i)"
proof -
  have a: "fst (extract_task \<lparr>dt_day = 739925, dt_usec = 0\<rparr>
          (Some ''Can you prepare the slides'') ''calendar'' (Some ''Weekly sync'') []) =
     Inr \<lparr>task = Some ''Prepare meeting summary'', assignee = ''You'',
          deadline = Some (IsoDate 739926), confidence = ''high'',
          source = ''calendar'', subject_or_channel = Some ''Weekly sync''\<rparr>"
    by code_simp
  have b: "fst (extract_task \<lparr>dt_day = 739925, dt_usec = 0\<rparr>
          (Some ''FYI, deployment resolved'') ''email'' (Some ''Status'') []) =
     Inr \<lparr>task = None, assignee = ''You'', deadline = None, confidence = ''low'',
          source = ''email'', subject_or_channel = Some ''Status''\<rparr>"
    by code_simp
  have c: "branch_taken \<lparr>dt_day = 739925, dt_usec = 0\<rparr>
         (Some ''FYI, deployment resolved'') ''email'' (Some ''Status'') = Some 23"
    by code_simp
  show ?thesis
    using a b c
      extract_task_invariant [of "Some ''Weekly sync''" "\<lparr>dt_day = 739925, dt_usec = 0\<rparr>"
        "Some ''Can you prepare the slides''" "''calendar''" "[]"]
      extract_task_invariant [of "Some ''Status''" "\<lparr>dt_day = 739925, dt_usec = 0\<rparr>"
        "Some ''FYI, deployment resolved''" "''email''" "[]"]
    by simp
qed

text \<open>
  Claim C5.  The value returned does not depend on the list \<open>confirmed_tasks\<close>: two
  calls with the same arguments at the same clock reading return the same value whatever
  the list holds, and in particular when the second call runs on the list the first one
  left.
\<close>

theorem extract_task_result_independent_of_log:
  "fst (extract_task now content src subj log) = fst (extract_task now content src subj log')
   \<and> fst (extract_task now content src subj (snd (extract_task now content src subj log)))
       = fst (extract_task now content src subj log)"
  by (simp add: extract_task_fst)

theorem extract_task_result_independent_of_log_witness:
  "fst (extract_task \<lparr>dt_day = 739925, dt_usec = 0\<rparr> (Some ''please check the logs'') ''slack'' None [])
     = fst (extract_task \<lparr>dt_day = 739925, dt_usec = 0\<rparr> (Some ''please check the logs'') ''slack'' None
         (snd (extract_task \<lparr>dt_day = 739925, dt_usec = 0\<rparr> (Some ''please check the logs'') ''slack'' None [])))
   \<and> snd (extract_task \<lparr>dt_day = 739925, dt_usec = 0\<rparr> (Some ''please check the logs'') ''slack'' None [])
       \<noteq> []"
proof -
  have "snd (extract_task \<lparr>dt_day = 739925, dt_usec = 0\<rparr> (Some ''please check the logs'') ''slack'' None [])
       \<noteq> []"
    by code_simp
  then show ?thesis
    using extract_task_result_independent_of_log
      [of "\<lparr>dt_day = 739925, dt_usec = 0\<rparr>" "Some ''please check the logs''" "''slack''" None
          "[]" "[]"]
    by simp
qed

section \<open>The agents and the task store: basic facts\<close>

lemma get_response_action:
  "action (get_response d m ow) =
     (if any_in [''done'', ''completed'', ''finished'', ''complete''] (lower m) then ''complete''
      else if any_in [''help'', ''how'', ''guide'', ''steps'', ''what''] (lower m) then ''guide''
      else if any_in [''send'', ''email'', ''submit''] (lower m) then ''send''
      else if any_in [''schedule'', ''book'', ''when'', ''time'', ''date''] (lower m) then ''schedule''
      else if any_in [''reassign'', ''assign to'', ''change owner'', ''assign''] (lower m)
        then ''reassign''
      else ''acknowledge'')"
  by (simp add: get_response_def Let_def)

lemma get_response_confidence:
  "reply_confidence (get_response d m ow) =
     (if any_in [''done'', ''completed'', ''finished'', ''complete''] (lower m) then ''high''
      else if any_in [''help'', ''how'', ''guide'', ''steps'', ''what''] (lower m) then ''medium''
      else if any_in [''send'', ''email'', ''submit''] (lower m) then ''high''
      else if any_in [''schedule'', ''book'', ''when'', ''time'', ''date''] (lower m) then ''medium''
      else if any_in [''reassign'', ''assign to'', ''change owner'', ''assign''] (lower m)
        then ''medium''
      else ''low'')"
  by (simp add: get_response_def Let_def)

lemma keyword_intent_complete:
  "keyword_intent t = Some ''complete''
     \<longleftrightarrow> any_in [''done'', ''completed'', ''finished'', ''complete''] t"
  by (simp add: keyword_intent_def)

lemma keyword_intent_None:
  "keyword_intent t = None \<Longrightarrow> \<not> any_in [''done'', ''completed'', ''finished'', ''complete''] t"
  by (simp add: keyword_intent_def split: if_splits)

lemma extract_intent_complete:
  "extract_intent (Some pipe) m = ''complete'' \<longleftrightarrow>
     keyword_intent (lower m) = Some ''complete''
     \<or> (keyword_intent (lower m) = None \<and> root_intent (pipe m) = Some ''complete'')"
  by (simp add: extract_intent_def split: option.splits)

lemma nlp_get_response_action:
  "action (nlp_get_response (Some pipe) d m ow) =
     (if extract_intent (Some pipe) m = ''complete'' then ''complete''
      else action (get_response d m ow))"
  by (simp add: nlp_get_response_def Let_def)

lemma nlp_get_response_confidence:
  "reply_confidence (nlp_get_response (Some pipe) d m ow) =
     (if extract_intent (Some pipe) m = ''complete'' then ''high''
      else reply_confidence (get_response d m ow))"
  by (simp add: nlp_get_response_def Let_def)

lemma first_containing_None:
  "first_containing q i ts = Inr None \<longleftrightarrow>
     (\<forall>t \<in> set ts. \<exists>d. task_text t = Inr d \<and> \<not> py_in q d)"
  by (induction ts arbitrary: i) (auto split: sum.splits)

section \<open>Claims about the agents and the task store\<close>

text \<open>
  Claim C6, as stated: \<open>NLPAgent.get_response\<close> returns the action and the confidence of
  \<open>TaskAgent.get_response\<close> for every task description and message.  With a pipeline that
  parses \<open>I am completing it\<close> with root \<open>completing\<close>, lemma \<open>complete\<close>, no keyword
  group matches (the message has \<open>completing\<close>, not \<open>complete\<close>), the root verb decides,
  and the two agents differ: \<open>complete\<close> with \<open>high\<close> against \<open>acknowledge\<close> with \<open>low\<close>.
\<close>

theorem nlp_agent_against_task_agent_counterexample:
  "action (nlp_get_response
       (Some (\<lambda>m. [\<lparr>tok_dep = ''nsubj'', tok_lemma = ''I''\<rparr>, \<lparr>tok_dep = ''aux'', tok_lemma = ''be''\<rparr>,
                    \<lparr>tok_dep = ''ROOT'', tok_lemma = ''complete''\<rparr>,
                    \<lparr>tok_dep = ''dobj'', tok_lemma = ''it''\<rparr>]))
       ''Ship the release'' ''I am completing it'' ''You'') = ''complete''
   \<and> reply_confidence (nlp_get_response
       (Some (\<lambda>m. [\<lparr>tok_dep = ''nsubj'', tok_lemma = ''I''\<rparr>, \<lparr>tok_dep = ''aux'', tok_lemma = ''be''\<rparr>,
                    \<lparr>tok_dep = ''ROOT'', tok_lemma = ''complete''\<rparr>,
                    \<lparr>tok_dep = ''dobj'', tok_lemma = ''it''\<rparr>]))
       ''Ship the release'' ''I am completing it'' ''You'') = ''high''
   \<and> action (get_response ''Ship the release'' ''I am completing it'' ''You'') = ''acknowledge''
   \<and> reply_confidence (get_response ''Ship the release'' ''I am completing it'' ''You'') = ''low''"
  by code_simp

text \<open>
  Claim C6, amended.  Without a backend \<open>NLPAgent.get_response\<close> is
  \<open>TaskAgent.get_response\<close>.  In \<open>_extract_intent\<close> the keyword groups decide first, and
  the root verb only when none matches.  With a backend the two agents return the same
  action and the same confidence, except when no keyword group matches and the root verb
  found is \<open>complete\<close>: then \<open>NLPAgent\<close> returns \<open>complete\<close> with \<open>high\<close> and
  \<open>TaskAgent\<close> returns another action.
\<close>

theorem nlp_agent_against_task_agent:
  "nlp_get_response None d m ow = get_response d m ow
   \<and> (\<forall>i. keyword_intent (lower m) = Some i \<longrightarrow> extract_intent nlp m = i)
   \<and> (keyword_intent (lower m) = None \<and> root_intent (pipe m) = Some ''complete'' \<longrightarrow>
        action (nlp_get_response (Some pipe) d m ow) = ''complete''
        \<and> reply_confidence (nlp_get_response (Some pipe) d m ow) = ''high''
        \<and> action (get_response d m ow) \<noteq> ''complete'')
   \<and> (keyword_intent (lower m) \<noteq> None \<or> root_intent (pipe m) \<noteq> Some ''complete'' \<longrightarrow>
        action (nlp_get_response (Some pipe) d m ow) = action (get_response d m ow)
        \<and> reply_confidence (nlp_get_response (Some pipe) d m ow)
            = reply_confidence (get_response d m ow))"
proof (intro conjI)
  show "nlp_get_response None d m ow = get_response d m ow"
    by (simp add: nlp_get_response_def)
  show "\<forall>i. keyword_intent (lower m) = Some i \<longrightarrow> extract_intent nlp m = i"
    by (simp add: extract_intent_def)
  show "keyword_intent (lower m) = None \<and> root_intent (pipe m) = Some ''complete'' \<longrightarrow>
        action (nlp_get_response (Some pipe) d m ow) = ''complete''
        \<and> reply_confidence (nlp_get_response (Some pipe) d m ow) = ''high''
        \<and> action (get_response d m ow) \<noteq> ''complete''"
  proof
    assume h: "keyword_intent (lower m) = None \<and> root_intent (pipe m) = Some ''complete''"
    then have "\<not> any_in [''done'', ''completed'', ''finished'', ''complete''] (lower m)"
      using keyword_intent_None by blast
    then have "action (get_response d m ow) \<noteq> ''complete''"
      unfolding get_response_action by simp
    with h show "action (nlp_get_response (Some pipe) d m ow) = ''complete''
        \<and> reply_confidence (nlp_get_response (Some pipe) d m ow) = ''high''
        \<and> action (get_response d m ow) \<noteq> ''complete''"
      by (simp add: nlp_get_response_action nlp_get_response_confidence extract_intent_complete)
  qed
  show "keyword_intent (lower m) \<noteq> None \<or> root_intent (pipe m) \<noteq> Some ''complete'' \<longrightarrow>
        action (nlp_get_response (Some pipe) d m ow) = action (get_response d m ow)
        \<and> reply_confidence (nlp_get_response (Some pipe) d m ow)
            = reply_confidence (get_response d m ow)"
  proof
    assume h: "keyword_intent (lower m) \<noteq> None \<or> root_intent (pipe m) \<noteq> Some ''complete''"
    show "action (nlp_get_response (Some pipe) d m ow) = action (get_response d m ow)
        \<and> reply_confidence (nlp_get_response (Some pipe) d m ow)
            = reply_confidence (get_response d m ow)"
    proof (cases "keyword_intent (lower m) = Some ''complete''")
      case True
      then have k: "any_in [''done'', ''completed'', ''finished'', ''complete''] (lower m)"
        by (simp add: keyword_intent_complete)
      have "action (get_response d m ow) = ''complete''"
        and "reply_confidence (get_response d m ow) = ''high''"
        using k unfolding get_response_action get_response_confidence by simp_all
      with True show ?thesis
        by (simp add: nlp_get_response_action nlp_get_response_confidence extract_intent_complete)
    next
      case False
      with h have "extract_intent (Some pipe) m \<noteq> ''complete''"
        by (auto simp: extract_intent_complete)
      then show ?thesis
        by (simp add: nlp_get_response_action nlp_get_response_confidence)
    qed
  qed
qed

theorem nlp_agent_against_task_agent_witness:
  "keyword_intent (lower ''Please approve this'') = Some ''approve''
   \<and> extract_intent None ''Please approve this'' = ''approve''
   \<and> action (nlp_get_response (Some (\<lambda>m. [\<lparr>tok_dep = ''ROOT'', tok_lemma = ''approve''\<rparr>]))
        ''Ship the release'' ''Please approve this'' ''You'')
      = action (get_response ''Ship the release'' ''Please approve this'' ''You'')
   \<and> keyword_intent (lower ''I am completing it'') = None
   \<and> root_intent [\<lparr>tok_dep = ''nsubj'', tok_lemma = ''I''\<rparr>,
                   \<lparr>tok_dep = ''ROOT'', tok_lemma = ''complete''\<rparr>] = Some ''complete''
   \<and> action (nlp_get_response
        (Some (\<lambda>m. [\<lparr>tok_dep = ''nsubj'', tok_lemma = ''I''\<rparr>,
                     \<lparr>tok_dep = ''ROOT'', tok_lemma = ''complete''\<rparr>]))
        ''Ship the release'' ''I am completing it'' ''You'') = ''complete''"
proof -
  have a: "keyword_intent (lower ''Please approve this'') = Some ''approve''"
    by code_simp
  have b: "keyword_intent (lower ''I am completing it'') = None"
    by code_simp
  have c: "root_intent [\<lparr>tok_dep = ''nsubj'', tok_lemma = ''I''\<rparr>,
                   \<lparr>tok_dep = ''ROOT'', tok_lemma = ''complete''\<rparr>] = Some ''complete''"
    by code_simp
  show ?thesis
    using a b c
      nlp_agent_against_task_agent [of "''Ship the release''" "''Please approve this''" "''You''"
        None "\<lambda>m. [\<lparr>tok_dep = ''ROOT'', tok_lemma = ''approve''\<rparr>]"]
      nlp_agent_against_task_agent [of "''Ship the release''" "''I am completing it''" "''You''"
        None "\<lambda>m. [\<lparr>tok_dep = ''nsubj'', tok_lemma = ''I''\<rparr>,
                     \<lparr>tok_dep = ''ROOT'', tok_lemma = ''complete''\<rparr>]"]
    by simp
qed

text \<open>
  Claim C7.  \<open>reassign\<close> on a reference that resolves to no task returns the failure
  result \<open>Task not found\<close> without raising and leaves the store as it was; so it does
  for an integer outside the bounds of the loaded list, and for a string that neither
  parses to an index within bounds nor occurs in any task description.
\<close>

theorem reassign_not_found:
  "(find_task_index ref st = Inr None \<longrightarrow>
      reassign ref new_owner st =
        (Inr \<lparr>success = False, message = Text ''Task not found'', index = None\<rparr>, st))
   \<and> (\<forall>tasks r. load_tasks st = Inr tasks \<and> (r < 0 \<or> int (length tasks) \<le> r) \<longrightarrow>
        reassign (IntRef r) new_owner st =
          (Inr \<lparr>success = False, message = Text ''Task not found'', index = None\<rparr>, st))
   \<and> (\<forall>tasks s. load_tasks st = Inr tasks
          \<and> (\<forall>i. py_int s = Some i \<longrightarrow> i < 0 \<or> int (length tasks) \<le> i)
          \<and> (\<forall>t \<in> set tasks. \<exists>d. task_text t = Inr d \<and> \<not> py_in (lower s) d) \<longrightarrow>
        reassign (StrRef s) new_owner st =
          (Inr \<lparr>success = False, message = Text ''Task not found'', index = None\<rparr>, st))"
proof (intro conjI allI impI)
  assume "find_task_index ref st = Inr None"
  then show "reassign ref new_owner st =
        (Inr \<lparr>success = False, message = Text ''Task not found'', index = None\<rparr>, st)"
    by (simp add: reassign_def)
next
  fix tasks r
  assume "load_tasks st = Inr tasks \<and> (r < 0 \<or> int (length tasks) \<le> r)"
  then have "find_task_index (IntRef r) st = Inr None"
    by (auto simp: find_task_index_def)
  then show "reassign (IntRef r) new_owner st =
        (Inr \<lparr>success = False, message = Text ''Task not found'', index = None\<rparr>, st)"
    by (simp add: reassign_def)
next
  fix tasks s
  assume a: "load_tasks st = Inr tasks
          \<and> (\<forall>i. py_int s = Some i \<longrightarrow> i < 0 \<or> int (length tasks) \<le> i)
          \<and> (\<forall>t \<in> set tasks. \<exists>d. task_text t = Inr d \<and> \<not> py_in (lower s) d)"
  then have "first_containing (lower s) 0 tasks = Inr None"
    by (simp add: first_containing_None)
  with a have "find_task_index (StrRef s) st = Inr None"
    by (auto simp: find_task_index_def split: option.splits)
  then show "reassign (StrRef s) new_owner st =
        (Inr \<lparr>success = False, message = Text ''Task not found'', index = None\<rparr>, st)"
    by (simp add: reassign_def)
qed

theorem reassign_not_found_witness:
  "reassign (IntRef 2) ''Nimal''
      \<lparr>data_file = Present True (Inr [JObj [(''task'', JStr ''Send the revised document''), (''owner'', JStr ''Ravindu'')],
                          JObj [(''task'', JStr ''Check server logs''), (''owner'', JStr ''You'')]]),
       writable = True\<rparr>
    = (Inr \<lparr>success = False, message = Text ''Task not found'', index = None\<rparr>,
       \<lparr>data_file = Present True (Inr [JObj [(''task'', JStr ''Send the revised document''), (''owner'', JStr ''Ravindu'')],
                          JObj [(''task'', JStr ''Check server logs''), (''owner'', JStr ''You'')]]),
       writable = True\<rparr>)
   \<and> reassign (StrRef ''invoice'') ''Nimal''
      \<lparr>data_file = Present True (Inr [JObj [(''task'', JStr ''Send the revised document''), (''owner'', JStr ''Ravindu'')],
                          JObj [(''task'', JStr ''Check server logs''), (''owner'', JStr ''You'')]]),
       writable = True\<rparr>
    = (Inr \<lparr>success = False, message = Text ''Task not found'', index = None\<rparr>,
       \<lparr>data_file = Present True (Inr [JObj [(''task'', JStr ''Send the revised document''), (''owner'', JStr ''Ravindu'')],
                          JObj [(''task'', JStr ''Check server logs''), (''owner'', JStr ''You'')]]),
       writable = True\<rparr>)"
proof -
  let ?st = "\<lparr>data_file = Present True (Inr [JObj [(''task'', JStr ''Send the revised document''), (''owner'', JStr ''Ravindu'')],
                          JObj [(''task'', JStr ''Check server logs''), (''owner'', JStr ''You'')]]),
       writable = True\<rparr>"
  have a: "find_task_index (IntRef 2) ?st = Inr None"
    by code_simp
  have b: "find_task_index (StrRef ''invoice'') ?st = Inr None"
    by code_simp
  show ?thesis
    using a b reassign_not_found [of "IntRef 2" ?st "''Nimal''"]
      reassign_not_found [of "StrRef ''invoice''" ?st "''Nimal''"]
    by simp
qed

text \<open>
  Claim C8.  A file that is missing, unreadable or not valid JSON loads as the empty
  list, never as an error.  The code does so for a missing file and for every exception
  that \<open>json.load\<close> raises on the open file, an \<open>OSError\<close> while reading included; the
  \<open>open\<close> one line above the \<open>try\<close> is not covered, and on a file that exists and
  cannot be opened \<open>load_tasks\<close> raises.
\<close>

theorem load_tasks_open_failure:
  "load_tasks (st\<lparr>data_file := Present False loaded\<rparr>) = Inl OSError
   \<and> load_tasks (st\<lparr>data_file := Present True (Inl e)\<rparr>) = Inr []
   \<and> load_tasks (st\<lparr>data_file := Absent\<rparr>) = Inr []
   \<and> load_tasks (st\<lparr>data_file := Present True (Inr tasks)\<rparr>) = Inr tasks"
  by (simp add: load_tasks_def path_exists_def open_for_reading_def)

text \<open>
  Claim C9.  The confidence that \<open>TaskAgent.get_response\<close> returns is the one the
  specification lists for the action it returns, for every task description and message;
  the message \<open>I'm done with this\<close> yields \<open>complete\<close> with \<open>high\<close>.
\<close>

theorem get_response_confidence_by_action:
  "spec_confidence (action (get_response d m ow)) = Some (reply_confidence (get_response d m ow))
   \<and> action (get_response d (''I'' @ [CHR 0x27] @ ''m done with this'') ow) = ''complete''
   \<and> reply_confidence (get_response d (''I'' @ [CHR 0x27] @ ''m done with this'') ow) = ''high''"
proof -
  have "any_in [''done'', ''completed'', ''finished'', ''complete'']
          (lower (''I'' @ [CHR 0x27] @ ''m done with this''))"
    by code_simp
  then show ?thesis
    unfolding get_response_action get_response_confidence
    by (simp add: spec_confidence_def)
qed

theorem get_response_confidence_by_action_witness:
  "spec_confidence (action (get_response ''Send the report'' ''when is it due'' ''You''))
     = Some (reply_confidence (get_response ''Send the report'' ''when is it due'' ''You''))
   \<and> action (get_response ''Send the report'' ''when is it due'' ''You'') = ''schedule''"
proof -
  have "action (get_response ''Send the report'' ''when is it due'' ''You'') = ''schedule''"
    by code_simp
  then show ?thesis
    using get_response_confidence_by_action [of "''Send the report''" "''when is it due''" "''You''"]
    by simp
qed

text \<open>
  Claim C10.  On a loaded list, a string reference that parses to an integer within the
  bounds resolves to that position, whatever the task descriptions are; an integer
  reference resolves to itself within the bounds and to nothing when it is negative or
  not less than the length; a string that parses to an integer outside the bounds is
  left to the substring search.
\<close>

theorem find_task_index_numeric_first:
  assumes "load_tasks st = Inr tasks"
  shows "(\<forall>i. py_int s = Some i \<and> 0 \<le> i \<and> i < int (length tasks) \<longrightarrow>
            find_task_index (StrRef s) st = Inr (Some (nat i)))
       \<and> (\<forall>r. r < 0 \<or> int (length tasks) \<le> r \<longrightarrow> find_task_index (IntRef r) st = Inr None)
       \<and> (\<forall>r. 0 \<le> r \<and> r < int (length tasks) \<longrightarrow>
            find_task_index (IntRef r) st = Inr (Some (nat r)))
       \<and> (\<forall>i. py_int s = Some i \<and> (i < 0 \<or> int (length tasks) \<le> i) \<longrightarrow>
            find_task_index (StrRef s) st = first_containing (lower s) 0 tasks)"
  using assms by (auto simp: find_task_index_def)

theorem find_task_index_numeric_first_witness:
  "load_tasks \<lparr>data_file = Present True (Inr [JObj [(''task'', JStr ''Call Bob'')],
                                  JObj [(''task'', JStr ''Order 0 widgets'')]]), writable = True\<rparr>
     = Inr [JObj [(''task'', JStr ''Call Bob'')], JObj [(''task'', JStr ''Order 0 widgets'')]]
   \<and> py_int ''0'' = Some 0
   \<and> find_task_index (StrRef ''0'')
        \<lparr>data_file = Present True (Inr [JObj [(''task'', JStr ''Call Bob'')],
                            JObj [(''task'', JStr ''Order 0 widgets'')]]), writable = True\<rparr>
       = Inr (Some 0)
   \<and> first_containing (lower ''0'') 0
        [JObj [(''task'', JStr ''Call Bob'')], JObj [(''task'', JStr ''Order 0 widgets'')]]
       = Inr (Some 1)
   \<and> find_task_index (IntRef (- 1))
        \<lparr>data_file = Present True (Inr [JObj [(''task'', JStr ''Call Bob'')],
                            JObj [(''task'', JStr ''Order 0 widgets'')]]), writable = True\<rparr>
       = Inr None"
proof -
  let ?ts = "[JObj [(''task'', JStr ''Call Bob'')], JObj [(''task'', JStr ''Order 0 widgets'')]]"
  have a: "load_tasks \<lparr>data_file = Present True (Inr ?ts), writable = True\<rparr> = Inr ?ts"
    by (simp add: load_tasks_def path_exists_def open_for_reading_def)
  have b: "py_int ''0'' = Some 0"
    by code_simp
  have c: "first_containing (lower ''0'') 0 ?ts = Inr (Some 1)"
    by code_simp
  show ?thesis
    using a b c find_task_index_numeric_first [OF a, of "''0''"]
    by simp
qed

end
